theory Spec2Isabelle
  imports Complex_Main
begin

section \<open>The pen icon generator\<close>

text \<open>
  The script \<^verbatim>\<open>scripts/generate_pen_icons.py\<close> draws one pen icon per size with the
  imaging library (PIL) and saves it as a PNG file. The model below follows
  \<open>create_icon\<close> and \<open>main\<close> line by line.

  \<^item> Python's \<open>float\<close> is modelled twice. In \<open>create_icon\<close> it is \<open>real\<close>: every product,
    difference and quotient of the source is the exact one, and \<open>math.hypot\<close> is the exact
    Euclidean norm. In \<open>create_icon_f64\<close> it is the IEEE binary64 number: the same
    operations, each rounded to the nearest double. The \<open>OverflowError\<close> of an \<open>int\<close> too
    large for a \<open>float\<close> is outside both models.
  \<^item> The canvas is a record of the arguments of \<open>Image.new\<close> together with the list of
    draw calls made on it, in the order they were made. What the library paints for a
    call is the library's business and is not modelled.
  \<^item> The world is the list of the effects visible outside the process (a file saved, a
    line printed), oldest first.
  \<^item> A raise is a value: \<open>Inl (e, w)\<close> carries the exception and the world as it was
    when the exception left the function.
  \<^item> A path is the list of its parts; \<open>ROOT\<close>, which the module computes from its own
    location, is a parameter. The module creates the icon directory when it is loaded,
    before \<open>main\<close> runs; failures of the file system are not modelled.
\<close>

subsection \<open>Data\<close>

type_synonym point = "real \<times> real"

datatype draw_call =
    Polygon "point list" string
  | Line "point list" string int

record image =
  im_mode :: string
  im_size :: "int \<times> int"
  im_color :: string
  im_calls :: "draw_call list"

type_synonym path = "string list"

datatype effect =
    Saved path string image
  | Printed string

type_synonym world = "effect list"

datatype error = ValueError | ZeroDivisionError

subsection \<open>Module constants\<close>

definition ICON_DIR :: "path \<Rightarrow> path" where
  "ICON_DIR ROOT = ROOT @ [''public'', ''icons'']"

definition BACKGROUND :: string where "BACKGROUND = ''#020617''"
definition PEN_BODY :: string where "PEN_BODY = ''#38bdf8''"
definition PEN_SHADOW :: string where "PEN_SHADOW = ''#0ea5e9''"
definition PEN_CLIP :: string where "PEN_CLIP = ''#bae6fd''"
definition PEN_NIB :: string where "PEN_NIB = ''#f8fafc''"
definition PEN_NIB_LINE :: string where "PEN_NIB_LINE = ''#94a3b8''"

subsection \<open>What the script uses of Python and of the imaging library\<close>

text \<open>\<open>math.hypot(x, y)\<close>.\<close>

definition hypot :: "real \<Rightarrow> real \<Rightarrow> real" where
  "hypot x y = sqrt (x\<^sup>2 + y\<^sup>2)"

text \<open>\<open>int(x)\<close> of a float: truncation towards zero.\<close>

definition py_int :: "real \<Rightarrow> int" where
  "py_int x = (if 0 \<le> x then \<lfloor>x\<rfloor> else \<lceil>x\<rceil>)"

text \<open>\<open>str(n)\<close> of an int, as the f-string \<open>f"pen-{size}.png"\<close> formats it.\<close>

fun str_nat :: "nat \<Rightarrow> string" where
  "str_nat n =
     (if n < 10 then [char_of (48 + n)]
      else str_nat (n div 10) @ [char_of (48 + n mod 10)])"

declare str_nat.simps [simp del]

definition str_int :: "int \<Rightarrow> string" where
  "str_int i = (if i < 0 then CHR ''-'' # str_nat (nat (- i)) else str_nat (nat i))"

text \<open>
  \<open>Image.new(mode, size, color)\<close>: the library refuses a negative width or height with
  \<open>ValueError\<close>; otherwise the canvas has the given mode and size and every pixel has the
  given colour. No draw call has been made on it yet.
\<close>

definition Image_new :: "string \<Rightarrow> int \<times> int \<Rightarrow> string \<Rightarrow> error + image" where
  "Image_new mode sz color =
     (if fst sz < 0 \<or> snd sz < 0 then Inl ValueError
      else Inr \<lparr>im_mode = mode, im_size = sz, im_color = color, im_calls = []\<rparr>)"

text \<open>\<open>draw.polygon(xy, fill=c)\<close> and \<open>draw.line(xy, fill=c, width=n)\<close> on the canvas.\<close>

definition polygon :: "image \<Rightarrow> point list \<Rightarrow> string \<Rightarrow> image" where
  "polygon img xy fill = img\<lparr>im_calls := im_calls img @ [Polygon xy fill]\<rparr>"

definition line :: "image \<Rightarrow> point list \<Rightarrow> string \<Rightarrow> int \<Rightarrow> image" where
  "line img xy fill w = img\<lparr>im_calls := im_calls img @ [Line xy fill w]\<rparr>"

text \<open>
  \<open>path.relative_to(ROOT)\<close> raises \<open>ValueError\<close> unless \<open>ROOT\<close> is a prefix of the path;
  \<open>str\<close> of a relative path joins its parts with \<open>/\<close>.
\<close>

definition relative_to :: "path \<Rightarrow> path \<Rightarrow> error + path" where
  "relative_to p ROOT =
     (if take (length ROOT) p = ROOT then Inr (drop (length ROOT) p) else Inl ValueError)"

fun str_path :: "path \<Rightarrow> string" where
  "str_path [] = ''.''"
| "str_path [a] = a"
| "str_path (a # b # bs) = a @ ''/'' @ str_path (b # bs)"

subsection \<open>The script's functions\<close>

definition offset_point :: "point \<Rightarrow> point \<Rightarrow> point" where
  "offset_point point vector = (fst point + fst vector, snd point + snd vector)"

text \<open>
  \<open>create_icon(size)\<close>. The parameter is \<open>sz\<close>, the locals \<open>end\<close> and \<open>length\<close> are
  \<open>end_pt\<close> and \<open>len\<close>; every other name is the source's. The division by \<open>length\<close>
  raises \<open>ZeroDivisionError\<close> when \<open>length\<close> is zero.
\<close>

definition create_icon :: "path \<Rightarrow> int \<Rightarrow> world \<Rightarrow> (error \<times> world) + world" where
  "create_icon ROOT sz w =
     (case Image_new ''RGBA'' (sz, sz) BACKGROUND of
        Inl e \<Rightarrow> Inl (e, w)
      | Inr img \<Rightarrow>
          let start = (real_of_int sz * 0.28, real_of_int sz * 0.18);
              end_pt = (real_of_int sz * 0.78, real_of_int sz * 0.78);
              width = real_of_int sz * 0.16;
              dx = fst end_pt - fst start;
              dy = snd end_pt - snd start;
              len = hypot dx dy
          in if len = 0 then Inl (ZeroDivisionError, w)
             else
               let ux = dx / len;
                   uy = dy / len;
                   px = - uy;
                   py = ux;
                   half = width / 2;
                   perp = (px * half, py * half);
                   body = [offset_point start perp,
                           offset_point end_pt perp,
                           offset_point end_pt (- fst perp, - snd perp),
                           offset_point start (- fst perp, - snd perp)];
                   shadow = [offset_point start (fst perp * 0.4, snd perp * 0.4),
                             offset_point end_pt (fst perp * 0.4, snd perp * 0.4),
                             offset_point end_pt (- fst perp * 0.6, - snd perp * 0.6),
                             offset_point start (- fst perp * 0.6, - snd perp * 0.6)];
                   img = polygon img shadow PEN_SHADOW;
                   img = polygon img body PEN_BODY;
                   nib_length = width * 0.85;
                   nib_tip = offset_point end_pt (ux * nib_length, uy * nib_length);
                   nib = [offset_point end_pt perp,
                          nib_tip,
                          offset_point end_pt (- fst perp, - snd perp)];
                   img = polygon img nib PEN_NIB;
                   img = line img [nib_tip, offset_point end_pt (0, 0)] PEN_NIB_LINE
                           (py_int (width * 0.08));
                   eraser_length = width * 0.9;
                   eraser_start =
                     offset_point start (- ux * eraser_length, - uy * eraser_length);
                   eraser = [offset_point eraser_start perp,
                             offset_point start perp,
                             offset_point start (- fst perp, - snd perp),
                             offset_point eraser_start (- fst perp, - snd perp)];
                   img = polygon img eraser PEN_CLIP;
                   clip_offset = half * 0.6;
                   clip = [offset_point start (fst perp * 0.5, snd perp * 0.5),
                           offset_point start (- fst perp * 0.2, - snd perp * 0.2),
                           offset_point (offset_point start (- ux * width, - uy * width))
                             (- fst perp * 0.2, - snd perp * 0.2),
                           offset_point (offset_point start (- ux * width, - uy * width))
                             (fst perp * 0.5, snd perp * 0.5)];
                   img = polygon img clip PEN_SHADOW;
                   path = ICON_DIR ROOT @ [''pen-'' @ str_int sz @ ''.png''];
                   w = w @ [Saved path ''PNG'' img]
               in (case relative_to path ROOT of
                     Inl e \<Rightarrow> Inl (e, w)
                   | Inr rel \<Rightarrow> Inr (w @ [Printed (''Saved '' @ str_path rel)])))"

text \<open>\<open>main()\<close>: the loop over the tuple \<open>(192, 512)\<close>; a raise leaves the loop.\<close>

fun main_loop :: "path \<Rightarrow> int list \<Rightarrow> world \<Rightarrow> (error \<times> world) + world" where
  "main_loop ROOT [] w = Inr w"
| "main_loop ROOT (sz # rest) w =
     (case create_icon ROOT sz w of
        Inl e \<Rightarrow> Inl e
      | Inr w' \<Rightarrow> main_loop ROOT rest w')"

definition main :: "path \<Rightarrow> world \<Rightarrow> (error \<times> world) + world" where
  "main ROOT w = main_loop ROOT [192, 512] w"

subsection \<open>The geometry as the specification words it\<close>

text \<open>
  The definitions of this subsection are written from the specification's section 4.1,
  not from the code: the stroke axis, its unit direction, the perpendicular offset and
  the five shapes. The theorems below compare them with what \<open>create_icon\<close> draws.
  Where the specification leaves the order of a shape's vertices open (eraser, clip), the
  order is the code's: a walk around the boundary of the shape.
\<close>

definition vadd :: "point \<Rightarrow> point \<Rightarrow> point" where
  "vadd p v = (fst p + fst v, snd p + snd v)"

definition vsub :: "point \<Rightarrow> point \<Rightarrow> point" where
  "vsub p v = (fst p - fst v, snd p - snd v)"

definition scale :: "real \<Rightarrow> point \<Rightarrow> point" where
  "scale c v = (c * fst v, c * snd v)"

definition dot :: "point \<Rightarrow> point \<Rightarrow> real" where
  "dot u v = fst u * fst v + snd u * snd v"

definition vnorm :: "point \<Rightarrow> real" where
  "vnorm v = sqrt (dot v v)"


definition spec_start :: "int \<Rightarrow> point" where
  "spec_start sz = (0.28 * real_of_int sz, 0.18 * real_of_int sz)"

definition spec_end :: "int \<Rightarrow> point" where
  "spec_end sz = (0.78 * real_of_int sz, 0.78 * real_of_int sz)"

definition spec_width :: "int \<Rightarrow> real" where
  "spec_width sz = 0.16 * real_of_int sz"

definition spec_axis :: "int \<Rightarrow> point" where
  "spec_axis sz = vsub (spec_end sz) (spec_start sz)"

definition spec_dir :: "int \<Rightarrow> point" where
  "spec_dir sz = scale (1 / vnorm (spec_axis sz)) (spec_axis sz)"

definition spec_perp :: "int \<Rightarrow> point" where
  "spec_perp sz = scale (spec_width sz / 2) (- snd (spec_dir sz), fst (spec_dir sz))"

definition spec_body :: "int \<Rightarrow> point list" where
  "spec_body sz =
     [vadd (spec_start sz) (spec_perp sz),
      vadd (spec_end sz) (spec_perp sz),
      vsub (spec_end sz) (spec_perp sz),
      vsub (spec_start sz) (spec_perp sz)]"

definition spec_shadow :: "int \<Rightarrow> point list" where
  "spec_shadow sz =
     [vadd (spec_start sz) (scale 0.4 (spec_perp sz)),
      vadd (spec_end sz) (scale 0.4 (spec_perp sz)),
      vsub (spec_end sz) (scale 0.6 (spec_perp sz)),
      vsub (spec_start sz) (scale 0.6 (spec_perp sz))]"

definition spec_nib_tip :: "int \<Rightarrow> point" where
  "spec_nib_tip sz = vadd (spec_end sz) (scale (0.85 * spec_width sz) (spec_dir sz))"

definition spec_nib :: "int \<Rightarrow> point list" where
  "spec_nib sz =
     [vadd (spec_end sz) (spec_perp sz),
      spec_nib_tip sz,
      vsub (spec_end sz) (spec_perp sz)]"

definition spec_centerline :: "int \<Rightarrow> point list" where
  "spec_centerline sz = [spec_nib_tip sz, spec_end sz]"

definition spec_eraser_start :: "int \<Rightarrow> point" where
  "spec_eraser_start sz = vsub (spec_start sz) (scale (0.9 * spec_width sz) (spec_dir sz))"

definition spec_eraser :: "int \<Rightarrow> point list" where
  "spec_eraser sz =
     [vadd (spec_eraser_start sz) (spec_perp sz),
      vadd (spec_start sz) (spec_perp sz),
      vsub (spec_start sz) (spec_perp sz),
      vsub (spec_eraser_start sz) (spec_perp sz)]"

definition spec_clip_back :: "int \<Rightarrow> point" where
  "spec_clip_back sz = vsub (spec_start sz) (scale (spec_width sz) (spec_dir sz))"

definition spec_clip :: "int \<Rightarrow> point list" where
  "spec_clip sz =
     [vadd (spec_start sz) (scale 0.5 (spec_perp sz)),
      vsub (spec_start sz) (scale 0.2 (spec_perp sz)),
      vsub (spec_clip_back sz) (scale 0.2 (spec_perp sz)),
      vadd (spec_clip_back sz) (scale 0.5 (spec_perp sz))]"

text \<open>The path of the icon of a size, and the line printed for it.\<close>

definition icon_path :: "path \<Rightarrow> int \<Rightarrow> path" where
  "icon_path ROOT sz = ROOT @ [''public'', ''icons'', ''pen-'' @ str_int sz @ ''.png'']"

definition icon_message :: "int \<Rightarrow> string" where
  "icon_message sz = ''Saved public/icons/pen-'' @ str_int sz @ ''.png''"

text \<open>What a run leaves to observe: the canvases it saved, and the stroke widths of the
  lines drawn on them.\<close>

fun saved_images :: "world \<Rightarrow> image list" where
  "saved_images [] = []"
| "saved_images (Saved p fmt img # es) = img # saved_images es"
| "saved_images (Printed s # es) = saved_images es"

fun line_widths :: "draw_call list \<Rightarrow> int list" where
  "line_widths [] = []"
| "line_widths (Polygon xy fill # cs) = line_widths cs"
| "line_widths (Line xy fill n # cs) = n # line_widths cs"

definition stroke_widths :: "(error \<times> world) + world \<Rightarrow> int list" where
  "stroke_widths r =
     (case r of
        Inl e \<Rightarrow> []
      | Inr w \<Rightarrow> concat (map (\<lambda>img. line_widths (im_calls img)) (saved_images w)))"

subsection \<open>The same functions in binary64 arithmetic\<close>











section \<open>The stroke axis\<close>

lemma len_eq:
  "hypot (real_of_int sz * 0.78 - real_of_int sz * 0.28)
         (real_of_int sz * 0.78 - real_of_int sz * 0.18) =
   \<bar>real_of_int sz\<bar> * sqrt 61 / 10"
proof -
  have "(real_of_int sz * 0.78 - real_of_int sz * 0.28)\<^sup>2 +
        (real_of_int sz * 0.78 - real_of_int sz * 0.18)\<^sup>2 =
        (real_of_int sz)\<^sup>2 * (61 / 100)"
    by (simp add: power2_eq_square algebra_simps)
  then have "hypot (real_of_int sz * 0.78 - real_of_int sz * 0.28)
                   (real_of_int sz * 0.78 - real_of_int sz * 0.18) =
             sqrt ((real_of_int sz)\<^sup>2 * (61 / 100))"
    by (simp add: hypot_def)
  also have "\<dots> = \<bar>real_of_int sz\<bar> * sqrt 61 / 10"
    by (simp add: real_sqrt_mult real_sqrt_divide)
  finally show ?thesis .
qed

lemma len_nz:
  "0 < sz \<Longrightarrow>
   hypot (real_of_int sz * 0.78 - real_of_int sz * 0.28)
         (real_of_int sz * 0.78 - real_of_int sz * 0.18) \<noteq> 0"
  unfolding len_eq by simp

lemma ux_eq:
  "0 < sz \<Longrightarrow>
   (real_of_int sz * 0.78 - real_of_int sz * 0.28) /
   hypot (real_of_int sz * 0.78 - real_of_int sz * 0.28)
         (real_of_int sz * 0.78 - real_of_int sz * 0.18) = 5 / sqrt 61"
  unfolding len_eq by (simp add: field_simps)

lemma uy_eq:
  "0 < sz \<Longrightarrow>
   (real_of_int sz * 0.78 - real_of_int sz * 0.18) /
   hypot (real_of_int sz * 0.78 - real_of_int sz * 0.28)
         (real_of_int sz * 0.78 - real_of_int sz * 0.18) = 6 / sqrt 61"
  unfolding len_eq by (simp add: field_simps)

lemma spec_axis_eq: "spec_axis sz = (real_of_int sz / 2, real_of_int sz * 3 / 5)"
  by (simp add: spec_axis_def spec_end_def spec_start_def vsub_def)

lemma vnorm_spec_axis: "vnorm (spec_axis sz) = \<bar>real_of_int sz\<bar> * sqrt 61 / 10"
proof -
  have "dot (spec_axis sz) (spec_axis sz) = (real_of_int sz)\<^sup>2 * (61 / 100)"
    by (simp add: spec_axis_eq dot_def power2_eq_square algebra_simps)
  then have "vnorm (spec_axis sz) = sqrt ((real_of_int sz)\<^sup>2 * (61 / 100))"
    by (simp only: vnorm_def)
  also have "\<dots> = \<bar>real_of_int sz\<bar> * sqrt 61 / 10"
    by (simp add: real_sqrt_mult real_sqrt_divide)
  finally show ?thesis .
qed

lemma spec_dir_eq:
  assumes "0 < sz"
  shows "spec_dir sz = (5 / sqrt 61, 6 / sqrt 61)"
proof -
  have "vnorm (spec_axis sz) = real_of_int sz * sqrt 61 / 10"
    using assms by (simp add: vnorm_spec_axis)
  then have "spec_dir sz =
      scale (1 / (real_of_int sz * sqrt 61 / 10)) (real_of_int sz / 2, real_of_int sz * 3 / 5)"
    by (simp only: spec_dir_def spec_axis_eq)
  also have "\<dots> = (5 / sqrt 61, 6 / sqrt 61)"
    using assms by (simp add: scale_def field_simps)
  finally show ?thesis .
qed

section \<open>A run on a positive size\<close>

text \<open>
  On a positive size \<open>create_icon\<close> raises nothing: it saves one canvas, on which it
  has drawn the six shapes of the specification, and prints one line.
\<close>

lemma create_icon_run:
  assumes "0 < sz"
  shows "create_icon ROOT sz w =
    Inr (w @ [Saved (icon_path ROOT sz) ''PNG''
                \<lparr>im_mode = ''RGBA'', im_size = (sz, sz), im_color = BACKGROUND,
                 im_calls = [Polygon (spec_shadow sz) PEN_SHADOW,
                             Polygon (spec_body sz) PEN_BODY,
                             Polygon (spec_nib sz) PEN_NIB,
                             Line (spec_centerline sz) PEN_NIB_LINE
                               (py_int (0.08 * spec_width sz)),
                             Polygon (spec_eraser sz) PEN_CLIP,
                             Polygon (spec_clip sz) PEN_SHADOW]\<rparr>,
              Printed (icon_message sz)])"
  using assms
  unfolding create_icon_def Image_new_def
  apply (simp only: fst_conv snd_conv)
  apply (simp only: Let_def fst_conv snd_conv)
  apply (simp only: ux_eq uy_eq len_nz if_False)
  apply (simp add: relative_to_def ICON_DIR_def polygon_def line_def)
  apply (simp add: icon_path_def icon_message_def spec_shadow_def spec_body_def spec_nib_def
      spec_centerline_def spec_eraser_def spec_clip_def spec_nib_tip_def
      spec_eraser_start_def spec_clip_back_def spec_perp_def spec_dir_eq spec_width_def
      spec_start_def spec_end_def vadd_def vsub_def scale_def offset_point_def)
  done



section \<open>Vectors, and the perpendicular offset\<close>

lemma vnorm_spec_dir: "0 < sz \<Longrightarrow> vnorm (spec_dir sz) = 1"
  by (simp add: spec_dir_eq vnorm_def dot_def field_simps)











lemma py_int_width: "0 < sz \<Longrightarrow> py_int (0.08 * spec_width sz) = (8 * sz) div 625"
proof -
  assume "0 < sz"
  have "0.08 * spec_width sz = real_of_int (8 * sz) / real_of_int 625"
    by (simp add: spec_width_def)
  then have "\<lfloor>0.08 * spec_width sz\<rfloor> = (8 * sz) div 625"
    by (simp only: floor_divide_of_int_eq)
  with \<open>0 < sz\<close> show ?thesis
    by (simp add: py_int_def spec_width_def)
qed

lemma str_192: "str_int 192 = ''192''" by code_simp
lemma str_512: "str_int 512 = ''512''" by code_simp

section \<open>Rounding to the nearest double\<close>









section \<open>The runs at sizes 192 and 512 in binary64 arithmetic\<close>





































































































































































































section \<open>The shapes\<close>

text \<open>
  C1. For every positive size, the body polygon that \<open>create_icon\<close> draws (the second
  draw call, filled with the body colour) has exactly the four vertices \<open>start + perp\<close>,
  \<open>end + perp\<close>, \<open>end - perp\<close>, \<open>start - perp\<close>, in that order, where \<open>start\<close> is
  \<open>(0.28 size, 0.18 size)\<close>, \<open>end\<close> is \<open>(0.78 size, 0.78 size)\<close>, and \<open>perp\<close> is the
  unit vector perpendicular to the axis from \<open>start\<close> to \<open>end\<close>, scaled by half of the
  width \<open>0.16 size\<close>.
\<close>

theorem body_polygon:
  assumes "0 < sz"
  shows "\<exists>shadow nib centerline eraser clip msg.
    create_icon ROOT sz w =
      Inr (w @ [Saved (icon_path ROOT sz) ''PNG''
                  \<lparr>im_mode = ''RGBA'', im_size = (sz, sz), im_color = BACKGROUND,
                   im_calls =
                     [shadow,
                      Polygon [vadd (spec_start sz) (spec_perp sz),
                               vadd (spec_end sz) (spec_perp sz),
                               vsub (spec_end sz) (spec_perp sz),
                               vsub (spec_start sz) (spec_perp sz)] PEN_BODY,
                      nib, centerline, eraser, clip]\<rparr>,
                Printed msg])
    \<and> spec_start sz = (0.28 * real_of_int sz, 0.18 * real_of_int sz)
    \<and> spec_end sz = (0.78 * real_of_int sz, 0.78 * real_of_int sz)
    \<and> spec_perp sz = scale (0.16 * real_of_int sz / 2) (- snd (spec_dir sz), fst (spec_dir sz))
    \<and> spec_dir sz = scale (1 / vnorm (vsub (spec_end sz) (spec_start sz)))
                       (vsub (spec_end sz) (spec_start sz))
    \<and> vnorm (spec_dir sz) = 1
    \<and> dot (- snd (spec_dir sz), fst (spec_dir sz)) (spec_dir sz) = 0"
proof -
  have run: "create_icon ROOT sz w =
      Inr (w @ [Saved (icon_path ROOT sz) ''PNG''
                  \<lparr>im_mode = ''RGBA'', im_size = (sz, sz), im_color = BACKGROUND,
                   im_calls =
                     [Polygon (spec_shadow sz) PEN_SHADOW,
                      Polygon [vadd (spec_start sz) (spec_perp sz),
                               vadd (spec_end sz) (spec_perp sz),
                               vsub (spec_end sz) (spec_perp sz),
                               vsub (spec_start sz) (spec_perp sz)] PEN_BODY,
                      Polygon (spec_nib sz) PEN_NIB,
                      Line (spec_centerline sz) PEN_NIB_LINE (py_int (0.08 * spec_width sz)),
                      Polygon (spec_eraser sz) PEN_CLIP,
                      Polygon (spec_clip sz) PEN_SHADOW]\<rparr>,
                Printed (icon_message sz)])"
    using create_icon_run [OF assms, of ROOT w] by (simp only: spec_body_def)
  have "spec_perp sz = scale (0.16 * real_of_int sz / 2) (- snd (spec_dir sz), fst (spec_dir sz))"
    by (simp add: spec_perp_def spec_width_def)
  moreover have "spec_dir sz = scale (1 / vnorm (vsub (spec_end sz) (spec_start sz)))
                       (vsub (spec_end sz) (spec_start sz))"
    by (simp add: spec_dir_def spec_axis_def)
  moreover have "dot (- snd (spec_dir sz), fst (spec_dir sz)) (spec_dir sz) = 0"
    by (simp add: dot_def)
  ultimately show ?thesis
    using run vnorm_spec_dir [OF assms] by (simp add: spec_start_def spec_end_def)
qed

theorem body_polygon_witness:
  "\<exists>shadow nib centerline eraser clip msg.
    create_icon [] 192 [] =
      Inr ([] @ [Saved (icon_path [] 192) ''PNG''
                  \<lparr>im_mode = ''RGBA'', im_size = (192, 192), im_color = BACKGROUND,
                   im_calls =
                     [shadow,
                      Polygon [vadd (spec_start 192) (spec_perp 192),
                               vadd (spec_end 192) (spec_perp 192),
                               vsub (spec_end 192) (spec_perp 192),
                               vsub (spec_start 192) (spec_perp 192)] PEN_BODY,
                      nib, centerline, eraser, clip]\<rparr>,
                Printed msg])"
proof -
  have pos: "(0::int) < 192" by simp
  show ?thesis using body_polygon [OF pos, of "[]" "[]"] by blast
qed







text \<open>
  C4, as stated, fails. The stroke width handed to the library is \<open>int(width * 0.08)\<close>, an
  integer: at size 192 the only line drawn has stroke width 2, while
  \<open>0.08 * 0.16 * 192\<close> is \<open>2.4576\<close>.
\<close>

theorem centerline_width_counterexample:
  "stroke_widths (create_icon [] 192 []) = [2] \<and>
   real_of_int 2 \<noteq> 0.08 * (0.16 * real_of_int 192)"
proof -
  have pos: "(0::int) < 192" by simp
  have "py_int (0.08 * spec_width 192) = 2"
    using py_int_width [OF pos] by simp
  then show ?thesis
    by (simp add: create_icon_run [OF pos] stroke_widths_def)
qed

text \<open>
  C4, amended. For every positive size, the centerline is drawn from the apex of the nib
  to \<open>end\<close>, right after the nib triangle, with stroke width \<open>int(0.08 * width)\<close>: the
  integer part of \<open>0.08 * 0.16 * size\<close>, which is \<open>(8 * size) div 625\<close>.
\<close>

theorem centerline:
  assumes "0 < sz"
  shows "\<exists>shadow body nib eraser clip msg.
    create_icon ROOT sz w =
      Inr (w @ [Saved (icon_path ROOT sz) ''PNG''
                  \<lparr>im_mode = ''RGBA'', im_size = (sz, sz), im_color = BACKGROUND,
                   im_calls =
                     [shadow, body, nib,
                      Line [spec_nib_tip sz, spec_end sz] PEN_NIB_LINE
                        (py_int (0.08 * (0.16 * real_of_int sz))),
                      eraser, clip]\<rparr>,
                Printed msg])
    \<and> nib = Polygon [vadd (spec_end sz) (spec_perp sz), spec_nib_tip sz,
                      vsub (spec_end sz) (spec_perp sz)] PEN_NIB
    \<and> py_int (0.08 * (0.16 * real_of_int sz)) = \<lfloor>0.08 * (0.16 * real_of_int sz)\<rfloor>
    \<and> py_int (0.08 * (0.16 * real_of_int sz)) = (8 * sz) div 625"
proof -
  have w: "py_int (0.08 * (0.16 * real_of_int sz)) = (8 * sz) div 625"
    using py_int_width [OF assms] by (simp only: spec_width_def)
  have f: "py_int (0.08 * (0.16 * real_of_int sz)) = \<lfloor>0.08 * (0.16 * real_of_int sz)\<rfloor>"
    using assms by (simp add: py_int_def)
  have "create_icon ROOT sz w =
      Inr (w @ [Saved (icon_path ROOT sz) ''PNG''
                  \<lparr>im_mode = ''RGBA'', im_size = (sz, sz), im_color = BACKGROUND,
                   im_calls =
                     [Polygon (spec_shadow sz) PEN_SHADOW,
                      Polygon (spec_body sz) PEN_BODY,
                      Polygon [vadd (spec_end sz) (spec_perp sz), spec_nib_tip sz,
                               vsub (spec_end sz) (spec_perp sz)] PEN_NIB,
                      Line [spec_nib_tip sz, spec_end sz] PEN_NIB_LINE
                         (py_int (0.08 * (0.16 * real_of_int sz))),
                      Polygon (spec_eraser sz) PEN_CLIP,
                      Polygon (spec_clip sz) PEN_SHADOW]\<rparr>,
                Printed (icon_message sz)])"
    using create_icon_run [OF assms, of ROOT w]
    by (simp only: spec_nib_def spec_centerline_def spec_width_def)
  with w f show ?thesis by blast
qed

theorem centerline_witness:
  "py_int (0.08 * (0.16 * real_of_int 192)) = (8 * 192) div 625 \<and> (8 * 192) div 625 = (2::int)"
proof -
  have pos: "(0::int) < 192" by simp
  show ?thesis using centerline [OF pos, of "[]" "[]"] by simp
qed

section \<open>The canvas and the order of the draw calls\<close>

text \<open>
  C2, as stated for every size, fails at size zero: the axis has length zero, the
  division that gives \<open>ux\<close> raises \<open>ZeroDivisionError\<close> before the first polygon is drawn,
  and nothing is saved.
\<close>

theorem draw_order_counterexample:
  "create_icon [] 0 [] = Inl (ZeroDivisionError, [])"
  by (simp add: create_icon_def Image_new_def hypot_def)

text \<open>
  C2, amended. For every positive size, the canvas is created filled with the background colour
  and with no draw call on it, and the canvas saved carries exactly six draw calls, in
  this order: the shadow polygon, the body polygon, the nib triangle, the nib centerline,
  the eraser polygon, the clip polygon.
\<close>

theorem draw_order:
  assumes "0 < sz"
  shows "\<exists>img msg c1 c2 c3 c4 n c5 c6.
    Image_new ''RGBA'' (sz, sz) BACKGROUND = Inr (img\<lparr>im_calls := []\<rparr>)
    \<and> create_icon ROOT sz w = Inr (w @ [Saved (icon_path ROOT sz) ''PNG'' img, Printed msg])
    \<and> im_color img = BACKGROUND
    \<and> im_calls img =
        [Polygon (spec_shadow sz) c1,
         Polygon (spec_body sz) c2,
         Polygon (spec_nib sz) c3,
         Line (spec_centerline sz) c4 n,
         Polygon (spec_eraser sz) c5,
         Polygon (spec_clip sz) c6]"
  using assms by (simp add: create_icon_run Image_new_def)

theorem draw_order_witness:
  "\<exists>img msg c1 c2 c3 c4 n c5 c6.
    create_icon [] 512 [] = Inr ([] @ [Saved (icon_path [] 512) ''PNG'' img, Printed msg])
    \<and> im_calls img =
        [Polygon (spec_shadow 512) c1,
         Polygon (spec_body 512) c2,
         Polygon (spec_nib 512) c3,
         Line (spec_centerline 512) c4 n,
         Polygon (spec_eraser 512) c5,
         Polygon (spec_clip 512) c6]"
proof -
  have pos: "(0::int) < 512" by simp
  show ?thesis using draw_order [OF pos, of "[]" "[]"] by blast
qed

text \<open>
  C10. For every positive size, the eraser rectangle is filled with \<open>PEN_CLIP\<close>
  (\<open>#bae6fd\<close>) and the clip quadrilateral with \<open>PEN_SHADOW\<close> (\<open>#0ea5e9\<close>), two different
  colours; the nib is filled with \<open>PEN_NIB\<close> and its centerline drawn in
  \<open>PEN_NIB_LINE\<close>.
\<close>

theorem shape_colours:
  assumes "0 < sz"
  shows "\<exists>shadow body n msg.
    create_icon ROOT sz w =
      Inr (w @ [Saved (icon_path ROOT sz) ''PNG''
                  \<lparr>im_mode = ''RGBA'', im_size = (sz, sz), im_color = BACKGROUND,
                   im_calls =
                     [shadow, body,
                      Polygon (spec_nib sz) PEN_NIB,
                      Line (spec_centerline sz) PEN_NIB_LINE n,
                      Polygon (spec_eraser sz) PEN_CLIP,
                      Polygon (spec_clip sz) PEN_SHADOW]\<rparr>,
                Printed msg])
    \<and> PEN_CLIP = ''#bae6fd'' \<and> PEN_SHADOW = ''#0ea5e9''
    \<and> PEN_NIB = ''#f8fafc'' \<and> PEN_NIB_LINE = ''#94a3b8''
    \<and> PEN_CLIP \<noteq> PEN_SHADOW"
proof -
  have "PEN_CLIP = ''#bae6fd''" "PEN_SHADOW = ''#0ea5e9''" "PEN_NIB = ''#f8fafc''"
    "PEN_NIB_LINE = ''#94a3b8''" "PEN_CLIP \<noteq> PEN_SHADOW"
    by (simp_all add: PEN_CLIP_def PEN_SHADOW_def PEN_NIB_def PEN_NIB_LINE_def)
  with create_icon_run [OF assms, of ROOT w] show ?thesis by blast
qed

theorem shape_colours_witness:
  "\<exists>shadow body n msg.
    create_icon [] 512 [] =
      Inr ([] @ [Saved (icon_path [] 512) ''PNG''
                  \<lparr>im_mode = ''RGBA'', im_size = (512, 512), im_color = BACKGROUND,
                   im_calls =
                     [shadow, body,
                      Polygon (spec_nib 512) PEN_NIB,
                      Line (spec_centerline 512) PEN_NIB_LINE n,
                      Polygon (spec_eraser 512) PEN_CLIP,
                      Polygon (spec_clip 512) PEN_SHADOW]\<rparr>,
                Printed msg])"
proof -
  have pos: "(0::int) < 512" by simp
  show ?thesis using shape_colours [OF pos, of "[]" "[]"] by blast
qed

text \<open>
  C8. For every positive size, \<open>create_icon\<close> creates a canvas of mode RGBA and of size
  \<open>size\<close> by \<open>size\<close>, filled with the background colour \<open>#020617\<close>; the canvas it saves has
  that mode, size and background, and it is saved in the PNG format.
\<close>

theorem canvas:
  assumes "0 < sz"
  shows "\<exists>calls msg.
    Image_new ''RGBA'' (sz, sz) BACKGROUND =
      Inr \<lparr>im_mode = ''RGBA'', im_size = (sz, sz), im_color = BACKGROUND, im_calls = []\<rparr>
    \<and> create_icon ROOT sz w =
      Inr (w @ [Saved (icon_path ROOT sz) ''PNG''
                  \<lparr>im_mode = ''RGBA'', im_size = (sz, sz), im_color = BACKGROUND,
                   im_calls = calls\<rparr>,
                Printed msg])
    \<and> BACKGROUND = ''#020617''"
  using assms by (simp add: create_icon_run Image_new_def BACKGROUND_def)

theorem canvas_witness:
  "\<exists>calls msg.
    create_icon [] 192 [] =
      Inr ([] @ [Saved (icon_path [] 192) ''PNG''
                  \<lparr>im_mode = ''RGBA'', im_size = (192, 192), im_color = BACKGROUND,
                   im_calls = calls\<rparr>,
                Printed msg])"
proof -
  have pos: "(0::int) < 192" by simp
  show ?thesis using canvas [OF pos, of "[]" "[]"] by blast
qed

section \<open>Failure and determinism\<close>

text \<open>
  C5. For every positive size, the length of the axis, \<open>hypot dx dy\<close> with \<open>dx\<close> and
  \<open>dy\<close> as \<open>create_icon\<close> computes them, is strictly positive; the run returns and
  does not raise \<open>ZeroDivisionError\<close>.
\<close>

theorem axis_length_positive:
  assumes "0 < sz"
  shows "0 < hypot (real_of_int sz * 0.78 - real_of_int sz * 0.28)
                   (real_of_int sz * 0.78 - real_of_int sz * 0.18)
    \<and> (\<exists>w'. create_icon ROOT sz w = Inr w')
    \<and> create_icon ROOT sz w \<noteq> Inl (ZeroDivisionError, w)"
proof -
  have "0 < hypot (real_of_int sz * 0.78 - real_of_int sz * 0.28)
                  (real_of_int sz * 0.78 - real_of_int sz * 0.18)"
    using assms unfolding len_eq by simp
  then show ?thesis
    by (simp add: create_icon_run [OF assms])
qed

theorem axis_length_positive_witness:
  "0 < hypot (real_of_int 192 * 0.78 - real_of_int 192 * 0.28)
             (real_of_int 192 * 0.78 - real_of_int 192 * 0.18)
   \<and> (\<exists>w'. create_icon [] 192 [] = Inr w')
   \<and> create_icon [] 192 [] \<noteq> Inl (ZeroDivisionError, [])"
proof -
  have pos: "(0::int) < 192" by simp
  show ?thesis by (rule axis_length_positive [OF pos])
qed


section \<open>The driver\<close>

text \<open>
  C6. \<open>main\<close> runs \<open>create_icon\<close> for 192 and then, on the world that run left, for
  512, and nothing else. Its effects are, in this order: \<open>pen-192.png\<close> saved in
  \<open>public/icons\<close> under the root, its relative path printed, \<open>pen-512.png\<close> saved in the
  same directory, its relative path printed.
\<close>

theorem main_run:
  "\<exists>img192 img512.
     main ROOT w =
       Inr (w @ [Saved (ROOT @ [''public'', ''icons'', ''pen-192.png'']) ''PNG'' img192,
                 Printed ''Saved public/icons/pen-192.png'',
                 Saved (ROOT @ [''public'', ''icons'', ''pen-512.png'']) ''PNG'' img512,
                 Printed ''Saved public/icons/pen-512.png''])
     \<and> im_size img192 = (192, 192) \<and> im_size img512 = (512, 512)
     \<and> create_icon ROOT 192 w =
           Inr (w @ [Saved (ROOT @ [''public'', ''icons'', ''pen-192.png'']) ''PNG'' img192,
                     Printed ''Saved public/icons/pen-192.png''])
     \<and> main ROOT w =
           create_icon ROOT 512
             (w @ [Saved (ROOT @ [''public'', ''icons'', ''pen-192.png'']) ''PNG'' img192,
                   Printed ''Saved public/icons/pen-192.png''])"
proof -
  have p192: "(0::int) < 192" and p512: "(0::int) < 512" by simp_all
  have names: "icon_path ROOT 192 = ROOT @ [''public'', ''icons'', ''pen-192.png'']"
    "icon_path ROOT 512 = ROOT @ [''public'', ''icons'', ''pen-512.png'']"
    "icon_message 192 = ''Saved public/icons/pen-192.png''"
    "icon_message 512 = ''Saved public/icons/pen-512.png''"
    by (simp_all add: icon_path_def icon_message_def str_192 str_512)
  show ?thesis
    by (simp add: main_def create_icon_run [OF p192] create_icon_run [OF p512] names)
qed

end
